theory Spec2Isabelle
  imports Complex_Main "HOL-Library.Monad_Syntax" "HOL-Library.Multiset" "HOL-Library.Sublist"
begin

section \<open>ETD-Filter: the transit pipeline of get-transits.py\<close>

text \<open>
  A shallow embedding of \<^verbatim>\<open>src/get-transits.py\<close>. Python strings are lists of
  characters, one \<^typ>\<open>char\<close> per code point (the only code point beyond ASCII that the
  program looks at is the degree sign U+00B0). Python exceptions are values of
  \<open>error\<close>; a function that can raise returns \<open>error + 'a\<close>.
\<close>

subsection \<open>Errors and library values\<close>

datatype error = ValueError | KeyError | IndexError | TypeError | OverflowError | RequestFailed

text \<open>
  \<^verbatim>\<open>datetime.datetime(year, month, day, hour, minute, tzinfo=datetime.timezone.utc)\<close>:
  every datetime the program constructs is in UTC with second and microsecond zero, so the
  record keeps the five fields the program supplies.
\<close>

record datetime =
  year :: int
  month :: int
  day :: int
  hour :: int
  minute :: int

definition is_leap :: "int \<Rightarrow> bool" where
  "is_leap y \<longleftrightarrow> y mod 4 = 0 \<and> (y mod 100 \<noteq> 0 \<or> y mod 400 = 0)"

definition days_in_month :: "int \<Rightarrow> int \<Rightarrow> int" where
  "days_in_month y m =
     (if m = 2 then (if is_leap y then 29 else 28)
      else if m = 4 \<or> m = 6 \<or> m = 9 \<or> m = 11 then 30 else 31)"

text \<open>The constructor raises ValueError for a field out of range.\<close>

definition mk_datetime :: "int \<Rightarrow> int \<Rightarrow> int \<Rightarrow> int \<Rightarrow> int \<Rightarrow> error + datetime" where
  "mk_datetime y mo d h mi =
     (if 1 \<le> y \<and> y \<le> 9999 \<and> 1 \<le> mo \<and> mo \<le> 12 \<and> 1 \<le> d \<and> d \<le> days_in_month y mo
         \<and> 0 \<le> h \<and> h \<le> 23 \<and> 0 \<le> mi \<and> mi \<le> 59
      then Inr \<lparr>year = y, month = mo, day = d, hour = h, minute = mi\<rparr>
      else Inl ValueError)"


text \<open>
  \<^verbatim>\<open>datetime.time\<close>: a time of day; \<open>utcoffset\<close> is the offset of its tzinfo in whole
  minutes, None for a naive time.
\<close>

record pytime =
  t_hour :: int
  t_minute :: int
  t_second :: int
  t_microsecond :: int
  utcoffset :: "int option"

text \<open>\<^verbatim>\<open>datetime.timetz()\<close> of a UTC datetime built as above.\<close>

definition timetz :: "datetime \<Rightarrow> pytime" where
  "timetz dt = \<lparr>t_hour = hour dt, t_minute = minute dt, t_second = 0, t_microsecond = 0,
                utcoffset = Some 0\<rparr>"

text \<open>Lexicographic three-way comparison of integer tuples (\<^verbatim>\<open>_cmp\<close> on tuples).\<close>

fun cmp_list :: "int list \<Rightarrow> int list \<Rightarrow> int" where
  "cmp_list [] [] = 0"
| "cmp_list [] (y # ys) = -1"
| "cmp_list (x # xs) [] = 1"
| "cmp_list (x # xs) (y # ys) = (if x < y then -1 else if y < x then 1 else cmp_list xs ys)"

text \<open>
  \<^verbatim>\<open>time._cmp\<close> for an order comparison: with equal offsets (or both naive) the fields are
  compared as they are; a naive and an aware time raise TypeError; two aware times with
  different offsets are compared after subtracting each offset from hour * 60 + minute.
\<close>

definition time_cmp :: "pytime \<Rightarrow> pytime \<Rightarrow> error + int" where
  "time_cmp a b =
     (if utcoffset a = utcoffset b
      then Inr (cmp_list [t_hour a, t_minute a, t_second a, t_microsecond a]
                         [t_hour b, t_minute b, t_second b, t_microsecond b])
      else (case (utcoffset a, utcoffset b) of
              (Some oa, Some ob) \<Rightarrow>
                Inr (cmp_list [t_hour a * 60 + t_minute a - oa, t_second a, t_microsecond a]
                              [t_hour b * 60 + t_minute b - ob, t_second b, t_microsecond b])
            | _ \<Rightarrow> Inl TypeError))"

subsection \<open>The data model\<close>

text \<open>
  A transit is the dictionary built in \<^verbatim>\<open>main\<close>. The sub-dictionaries
  \<^verbatim>\<open>transit["begin"]\<close> and \<^verbatim>\<open>transit["end"]\<close> start empty and are filled by
  \<^verbatim>\<open>extractStartEndTimes\<close> with both keys at once or not at all: None is the empty
  dictionary. \<^verbatim>\<open>transit["center"]\<close> is always filled before the transit is appended.
  \<^verbatim>\<open>n_samples\<close> is absent until the enrichment loop sets it.
\<close>

record moment =
  time :: datetime
  elevation :: int

record transit =
  object :: string
  mag_depth :: real
  n_samples :: "int option"
  t_begin :: "moment option"
  t_center :: moment
  t_end :: "moment option"

text \<open>
  Modelled from the spec: \<^verbatim>\<open>configmanager.readConfig\<close> is not part of the source
  file; the dictionary it returns has the keys the program reads, typed as section 6 of the
  specification gives them (a real depth, an integer threshold, two time-of-day strings).
\<close>

record config =
  min_mag_depth :: real
  elevation_threshold :: int
  min_start_time :: string
  max_end_time :: string

text \<open>
  What the program takes from the Python library and the network, as parameters:
  the current year, \<^verbatim>\<open>float\<close> on a cell text (None: ValueError), \<^verbatim>\<open>str\<close> of a float,
  \<^verbatim>\<open>datetime.time.fromisoformat\<close> (None: ValueError), and the sample count the
  popularity service returns for a star and a planet (None: any failure of the request
  or of reading the reply).
\<close>

record library =
  today_year :: int
  float_of :: "string \<Rightarrow> real option"
  str_of_float :: "real \<Rightarrow> string"
  time_fromisoformat :: "string \<Rightarrow> pytime option"
  fetch_samples :: "string \<Rightarrow> string \<Rightarrow> int option"

text \<open>One table row: the text of its link, when it has one, and the texts of its cells.\<close>

record row =
  link :: "string option"
  tds :: "string list"

subsection \<open>The two regular expressions\<close>

text \<open>
  A backtracking matcher returns the ways a piece of the pattern can match a prefix of
  the text, in the order the regex engine tries them (greedy first), each with the text
  that remains. The first complete way is the match \<^verbatim>\<open>re.search\<close> returns; the
  pattern starts with \<^verbatim>\<open>^\<close>, so a match starts at the first character.
\<close>

definition deg :: char where
  "deg = CHR 0xB0"

definition digit :: "char \<Rightarrow> bool" where
  "digit c \<longleftrightarrow> c \<in> set ''0123456789''"

text \<open>\<^verbatim>\<open>[0-9]{n}\<close>\<close>

definition digits_n :: "nat \<Rightarrow> string \<Rightarrow> (string \<times> string) list" where
  "digits_n n s = (if n \<le> length s \<and> list_all digit (take n s) then [(take n s, drop n s)] else [])"

text \<open>\<^verbatim>\<open>[0-9]{1,2}\<close>: two digits are tried before one.\<close>

definition digits_1_2 :: "string \<Rightarrow> (string \<times> string) list" where
  "digits_1_2 s = digits_n 2 s @ digits_n 1 s"

text \<open>A literal character.\<close>

definition lit :: "char \<Rightarrow> string \<Rightarrow> string list" where
  "lit c s = (case s of [] \<Rightarrow> [] | x # r \<Rightarrow> if x = c then [r] else [])"

text \<open>\<^verbatim>\<open>-?\<close>: the sign is tried before the empty match.\<close>

definition opt_minus :: "string \<Rightarrow> (string \<times> string) list" where
  "opt_minus s = (case s of [] \<Rightarrow> [([], s)]
                  | x # r \<Rightarrow> if x = CHR ''-'' then [([x], r), ([], s)] else [([], s)])"

text \<open>\<^verbatim>\<open>([0-9]{1,2}):([0-9]{2})(-?[0-9]{1,2})\<degree>\<close> with its three groups.\<close>

definition time_elev_matches :: "string \<Rightarrow> (string \<times> string \<times> string) list" where
  "time_elev_matches text =
     do { (h, r1) \<leftarrow> digits_1_2 text;
          r2 \<leftarrow> lit CHR '':'' r1;
          (m, r3) \<leftarrow> digits_n 2 r2;
          (sg, r4) \<leftarrow> opt_minus r3;
          (e, r5) \<leftarrow> digits_1_2 r4;
          r6 \<leftarrow> lit deg r5;
          [(h, m, sg @ e)] }"

definition search_start_end :: "string \<Rightarrow> (string \<times> string \<times> string) option" where
  "search_start_end text = (case time_elev_matches text of [] \<Rightarrow> None | g # _ \<Rightarrow> Some g)"

text \<open>\<^verbatim>\<open>^([0-9]{2})\.([0-9]{2})\. \<close> followed by the pattern above: five groups.\<close>

definition center_matches :: "string \<Rightarrow> (string \<times> string \<times> string \<times> string \<times> string) list" where
  "center_matches text =
     do { (d, r1) \<leftarrow> digits_n 2 text;
          r2 \<leftarrow> lit CHR ''.'' r1;
          (mo, r3) \<leftarrow> digits_n 2 r2;
          r4 \<leftarrow> lit CHR ''.'' r3;
          r5 \<leftarrow> lit CHR '' '' r4;
          (h, m, e) \<leftarrow> time_elev_matches r5;
          [(d, mo, h, m, e)] }"

definition search_center :: "string \<Rightarrow> (string \<times> string \<times> string \<times> string \<times> string) option" where
  "search_center text = (case center_matches text of [] \<Rightarrow> None | g # _ \<Rightarrow> Some g)"

text \<open>
  \<^verbatim>\<open>int\<close> on a group of the patterns: decimal digits, for the elevation after an
  optional minus sign. The value of a digit is its position in \<^verbatim>\<open>0123456789\<close>.
\<close>

definition digit_val :: "char \<Rightarrow> int" where
  "digit_val c = int (length (takeWhile (\<lambda>d. d \<noteq> c) ''0123456789''))"

definition py_int :: "string \<Rightarrow> int" where
  "py_int s = (case s of
                 [] \<Rightarrow> 0
               | c # r \<Rightarrow> if c = CHR ''-'' then - foldl (\<lambda>a x. 10 * a + digit_val x) 0 r
                          else foldl (\<lambda>a x. 10 * a + digit_val x) 0 s)"

subsection \<open>Building the transits from the table rows\<close>

text \<open>
  \<^verbatim>\<open>extractStartEndTimes\<close>, with the year, month and day it reads from the enclosing
  scope as arguments. When the pattern does not match, the function does nothing: the
  sub-dictionary stays empty (None) and nothing is raised.
\<close>

definition extractStartEndTimes :: "int \<Rightarrow> int \<Rightarrow> int \<Rightarrow> string \<Rightarrow> error + moment option" where
  "extractStartEndTimes y mo d text =
     (case search_start_end text of
        None \<Rightarrow> Inr None
      | Some (h, m, e) \<Rightarrow>
          (case mk_datetime y mo d (py_int h) (py_int m) of
             Inl err \<Rightarrow> Inl err
           | Inr dt \<Rightarrow> Inr (Some \<lparr>time = dt, elevation = py_int e\<rparr>)))"

text \<open>
  The body of the loop over the rows: \<open>Skipped\<close> is \<^verbatim>\<open>continue\<close> (no link in the
  row), \<open>Unparsable\<close> is the branch that prints the message and returns from
  \<^verbatim>\<open>main\<close> (the center text does not match), \<open>Raised\<close> an exception,
  \<open>Built\<close> the transit appended to the list.
\<close>

datatype row_result = Skipped | Unparsable | Raised error | Built transit

definition read_row :: "library \<Rightarrow> row \<Rightarrow> row_result" where
  "read_row lib r =
     (case link r of
        None \<Rightarrow> Skipped
      | Some name \<Rightarrow>
          if length (tds r) \<le> 6 then Raised IndexError
          else (case float_of lib (tds r ! 6) of
                  None \<Rightarrow> Raised ValueError
                | Some depth \<Rightarrow>
                    (case search_center (tds r ! 2) of
                       None \<Rightarrow> Unparsable
                     | Some (d, mo, h, m, e) \<Rightarrow>
                         (case mk_datetime (today_year lib) (py_int mo) (py_int d) (py_int h) (py_int m) of
                            Inl err \<Rightarrow> Raised err
                          | Inr ct \<Rightarrow>
                              (case extractStartEndTimes (today_year lib) (py_int mo) (py_int d) (tds r ! 1) of
                                 Inl err \<Rightarrow> Raised err
                               | Inr b \<Rightarrow>
                                   (case extractStartEndTimes (today_year lib) (py_int mo) (py_int d) (tds r ! 3) of
                                      Inl err \<Rightarrow> Raised err
                                    | Inr en \<Rightarrow>
                                        Built \<lparr>object = name, mag_depth = depth, n_samples = None,
                                               t_begin = b,
                                               t_center = \<lparr>time = ct, elevation = py_int e\<rparr>,
                                               t_end = en\<rparr>))))))"

text \<open>The loop: the transits built so far are in \<open>acc\<close>.\<close>

datatype rows_result = Rows_Unparsable | Rows_Raised error | Rows_Done "transit list"

fun read_rows :: "library \<Rightarrow> row list \<Rightarrow> transit list \<Rightarrow> rows_result" where
  "read_rows lib [] acc = Rows_Done acc"
| "read_rows lib (r # rs) acc =
     (case read_row lib r of
        Skipped \<Rightarrow> read_rows lib rs acc
      | Unparsable \<Rightarrow> Rows_Unparsable
      | Raised err \<Rightarrow> Rows_Raised err
      | Built t \<Rightarrow> read_rows lib rs (acc @ [t]))"

subsection \<open>The filter functions\<close>

definition filter_time :: "library \<Rightarrow> transit \<Rightarrow> config \<Rightarrow> error + bool" where
  "filter_time lib transit cfg =
     (case time_fromisoformat lib (min_start_time cfg) of
        None \<Rightarrow> Inl ValueError
      | Some mn \<Rightarrow>
          (case time_fromisoformat lib (max_end_time cfg) of
             None \<Rightarrow> Inl ValueError
           | Some mx \<Rightarrow>
               (case t_begin transit of
                  None \<Rightarrow> Inl KeyError
                | Some b \<Rightarrow>
                    (case t_end transit of
                       None \<Rightarrow> Inl KeyError
                     | Some e \<Rightarrow>
                         (case time_cmp (timetz (time b)) mn of
                            Inl err \<Rightarrow> Inl err
                          | Inr c1 \<Rightarrow>
                              if c1 \<ge> 0
                              then (case time_cmp (timetz (time e)) mx of
                                      Inl err \<Rightarrow> Inl err
                                    | Inr c2 \<Rightarrow> if c2 \<le> 0 then Inr True else Inr False)
                              else Inr False)))))"

definition filter_meridian_flip :: "transit \<Rightarrow> error + bool" where
  "filter_meridian_flip transit =
     (case t_begin transit of
        None \<Rightarrow> Inl KeyError
      | Some b \<Rightarrow>
          (case t_end transit of
             None \<Rightarrow> Inl KeyError
           | Some e \<Rightarrow>
               if elevation b < elevation (t_center transit)
                  \<and> elevation e < elevation (t_center transit)
               then Inr False else Inr True))"

definition filter_elevation :: "transit \<Rightarrow> config \<Rightarrow> error + bool" where
  "filter_elevation transit cfg =
     (case t_begin transit of
        None \<Rightarrow> Inl KeyError
      | Some b \<Rightarrow>
          if elevation b < elevation_threshold cfg then Inr False
          else (case t_end transit of
                  None \<Rightarrow> Inl KeyError
                | Some e \<Rightarrow>
                    if elevation e < elevation_threshold cfg then Inr False
                    else if elevation (t_center transit) < elevation_threshold cfg then Inr False
                    else Inr True))"

text \<open>The first filter of \<^verbatim>\<open>main\<close>, a lambda in the source.\<close>

definition filter_depth :: "config \<Rightarrow> transit \<Rightarrow> bool" where
  "filter_depth cfg t \<longleftrightarrow> mag_depth t \<ge> min_mag_depth cfg"

text \<open>
  The four \<^verbatim>\<open>filter\<close> objects are lazy and chained: \<^verbatim>\<open>list(transits)\<close> pulls one
  transit at a time through the depth, meridian, time and elevation predicates, in that
  order, a predicate being called only when the ones before it returned True. The first
  exception ends the run.
\<close>

definition admissible :: "library \<Rightarrow> config \<Rightarrow> transit \<Rightarrow> error + bool" where
  "admissible lib cfg t =
     (if \<not> filter_depth cfg t then Inr False
      else (case filter_meridian_flip t of
              Inl err \<Rightarrow> Inl err
            | Inr k2 \<Rightarrow>
                if \<not> k2 then Inr False
                else (case filter_time lib t cfg of
                        Inl err \<Rightarrow> Inl err
                      | Inr k3 \<Rightarrow> if \<not> k3 then Inr False else filter_elevation t cfg)))"

fun filter_transits :: "library \<Rightarrow> config \<Rightarrow> transit list \<Rightarrow> error + transit list" where
  "filter_transits lib cfg [] = Inr []"
| "filter_transits lib cfg (t # ts) =
     (case admissible lib cfg t of
        Inl err \<Rightarrow> Inl err
      | Inr keep \<Rightarrow>
          (case filter_transits lib cfg ts of
             Inl err \<Rightarrow> Inl err
           | Inr ts' \<Rightarrow> Inr (if keep then t # ts' else ts')))"

subsection \<open>Sample counts and ranking\<close>

text \<open>
  \<^verbatim>\<open>get_database_sample_number\<close>: the star is \<^verbatim>\<open>star_and_planet[:-2]\<close>, the planet
  \<^verbatim>\<open>star_and_planet[-1]\<close> (IndexError on the empty string); the request and the reading
  of the reply are the library's \<open>fetch_samples\<close>.
\<close>

definition get_database_sample_number :: "library \<Rightarrow> string \<Rightarrow> error + int" where
  "get_database_sample_number lib star_and_planet =
     (if star_and_planet = [] then Inl IndexError
      else (case fetch_samples lib (take (length star_and_planet - 2) star_and_planet)
                                   [last star_and_planet] of
              None \<Rightarrow> Inl RequestFailed
            | Some n \<Rightarrow> Inr n))"

text \<open>The loop that sets \<^verbatim>\<open>transit["n_samples"]\<close> on every surviving transit.\<close>

fun enrich :: "library \<Rightarrow> transit list \<Rightarrow> error + transit list" where
  "enrich lib [] = Inr []"
| "enrich lib (t # ts) =
     (case get_database_sample_number lib (object t) of
        Inl err \<Rightarrow> Inl err
      | Inr n \<Rightarrow>
          (case enrich lib ts of
             Inl err \<Rightarrow> Inl err
           | Inr ts' \<Rightarrow> Inr (t\<lparr>n_samples := Some n\<rparr> # ts')))"

text \<open>
  \<^verbatim>\<open>transits.sort(key=lambda k: k["n_samples"])\<close>. Python's sort is stable, and a stable
  sort by a key has one possible result, the one insertion sort (\<^const>\<open>sort_key\<close>) computes.
  The key raises KeyError on a transit without \<^verbatim>\<open>n_samples\<close>.
\<close>

definition sort_by_samples :: "transit list \<Rightarrow> error + transit list" where
  "sort_by_samples ts =
     (if list_all (\<lambda>k. n_samples k \<noteq> None) ts
      then Inr (sort_key (\<lambda>k. the (n_samples k)) ts)
      else Inl KeyError)"

subsection \<open>Output\<close>

text \<open>\<^verbatim>\<open>str\<close> of an integer.\<close>

fun str_nat :: "nat \<Rightarrow> string" where
  "str_nat n = (if n < 10 then [''0123456789'' ! n]
                else str_nat (n div 10) @ [''0123456789'' ! (n mod 10)])"

declare str_nat.simps [simp del]

definition str_int :: "int \<Rightarrow> string" where
  "str_int i = (if i < 0 then CHR ''-'' # str_nat (nat (- i)) else str_nat (nat i))"

text \<open>A field of \<^verbatim>\<open>strftime\<close> padded with a zero to two digits.\<close>

definition pad2 :: "int \<Rightarrow> string" where
  "pad2 i = (if i < 10 then CHR ''0'' # str_int i else str_int i)"

text \<open>
  \<^verbatim>\<open>strftime("%Y-%m-%d %H:%M")\<close>, for the years from 1000 on (the C library decides
  whether an earlier year is padded).
\<close>

definition strftime :: "datetime \<Rightarrow> string" where
  "strftime dt = str_int (year dt) @ ''-'' @ pad2 (month dt) @ ''-'' @ pad2 (day dt)
                 @ '' '' @ pad2 (hour dt) @ '':'' @ pad2 (minute dt)"

text \<open>
  \<^verbatim>\<open>astimezone(tz)\<close> for the fixed zone of two hours east of UTC: the fields of the
  result are the local ones. Past the last representable day it raises OverflowError.
\<close>

definition astimezone_cest :: "datetime \<Rightarrow> error + datetime" where
  "astimezone_cest dt =
     (if hour dt + 2 < 24 then Inr (dt\<lparr>hour := hour dt + 2\<rparr>)
      else if day dt < days_in_month (year dt) (month dt)
        then Inr (dt\<lparr>day := day dt + 1, hour := hour dt + 2 - 24\<rparr>)
      else if month dt < 12
        then Inr (dt\<lparr>month := month dt + 1, day := 1, hour := hour dt + 2 - 24\<rparr>)
      else if year dt < 9999
        then Inr (dt\<lparr>year := year dt + 1, month := 1, day := 1, hour := hour dt + 2 - 24\<rparr>)
      else Inl OverflowError)"

text \<open>\<^verbatim>\<open>sep.join(xs)\<close>\<close>

fun join :: "string \<Rightarrow> string list \<Rightarrow> string" where
  "join sep [] = []"
| "join sep [x] = x"
| "join sep (x # y # ys) = x @ sep @ join sep (y # ys)"

definition header :: "string list" where
  "header = [''object'', ''mag_depth'', ''n_samples'', ''begin time (cest)'', ''begin elevation'',
             ''center time (cest)'', ''center elevation'', ''end time (cest)'', ''end elevation'']"

text \<open>The line printed for one transit; the entries of \<^verbatim>\<open>data\<close> are evaluated in order.\<close>

definition csv_row :: "library \<Rightarrow> transit \<Rightarrow> error + string" where
  "csv_row lib transit =
     (case n_samples transit of
        None \<Rightarrow> Inl KeyError
      | Some n \<Rightarrow>
          (case t_begin transit of
             None \<Rightarrow> Inl KeyError
           | Some b \<Rightarrow>
               (case astimezone_cest (time b) of
                  Inl err \<Rightarrow> Inl err
                | Inr bt \<Rightarrow>
                    (case astimezone_cest (time (t_center transit)) of
                       Inl err \<Rightarrow> Inl err
                     | Inr ct \<Rightarrow>
                         (case t_end transit of
                            None \<Rightarrow> Inl KeyError
                          | Some e \<Rightarrow>
                              (case astimezone_cest (time e) of
                                 Inl err \<Rightarrow> Inl err
                               | Inr et \<Rightarrow>
                                   Inr (join '';''
                                     [object transit,
                                      str_of_float lib (mag_depth transit),
                                      str_int n,
                                      strftime bt,
                                      str_int (elevation b),
                                      strftime ct,
                                      str_int (elevation (t_center transit)),
                                      strftime et,
                                      str_int (elevation e)])))))))"

text \<open>
  The standard output of a printing function is the list of the lines printed, with the
  exception that ended it, if one did.
\<close>

fun print_rows :: "library \<Rightarrow> transit list \<Rightarrow> string list \<times> error option" where
  "print_rows lib [] = ([], None)"
| "print_rows lib (t # ts) =
     (case csv_row lib t of
        Inl err \<Rightarrow> ([], Some err)
      | Inr line \<Rightarrow> (line # fst (print_rows lib ts), snd (print_rows lib ts)))"

definition print_transits_csv :: "library \<Rightarrow> transit list \<Rightarrow> string list \<times> error option" where
  "print_transits_csv lib transits =
     (join '';'' header # fst (print_rows lib transits), snd (print_rows lib transits))"

subsection \<open>The main function\<close>

text \<open>Filtering, enrichment and ranking of the transits read from the table.\<close>

definition rank_transits :: "library \<Rightarrow> config \<Rightarrow> transit list \<Rightarrow> error + transit list" where
  "rank_transits lib cfg transits =
     (case filter_transits lib cfg transits of
        Inl err \<Rightarrow> Inl err
      | Inr kept \<Rightarrow>
          (case enrich lib kept of
             Inl err \<Rightarrow> Inl err
           | Inr enriched \<Rightarrow> sort_by_samples enriched))"

text \<open>
  The message of the unparsable branch is not an f-string in the source: the braces are
  printed as they are.
\<close>

definition could_not_parse :: string where
  "could_not_parse = ''Could not parse string '' @ [CHR 0x27] @ ''{center_text}'' @ [CHR 0x27]"

text \<open>
  \<^verbatim>\<open>main\<close> on the rows of the table (the \<^verbatim>\<open>tr\<close> elements with
  \<^verbatim>\<open>valign=top\<close>): what it prints and the exception that ends it, if any.
\<close>

definition main :: "library \<Rightarrow> config \<Rightarrow> row list \<Rightarrow> string list \<times> error option" where
  "main lib cfg rows =
     (case read_rows lib rows [] of
        Rows_Unparsable \<Rightarrow> ([could_not_parse], None)
      | Rows_Raised err \<Rightarrow> ([], Some err)
      | Rows_Done transits \<Rightarrow>
          (case rank_transits lib cfg transits of
             Inl err \<Rightarrow> ([], Some err)
           | Inr ranked \<Rightarrow> print_transits_csv lib ranked))"

section \<open>Example values\<close>

text \<open>Concrete transits and configurations on which the properties below are evaluated.\<close>

definition utc_moment :: "int \<Rightarrow> int \<Rightarrow> int \<Rightarrow> moment" where
  "utc_moment h mi el =
     \<lparr>time = \<lparr>year = 2023, month = 6, day = 8, hour = h, minute = mi\<rparr>, elevation = el\<rparr>"

definition elev_transit :: "int \<Rightarrow> int \<Rightarrow> int \<Rightarrow> transit" where
  "elev_transit be ce ee =
     \<lparr>object = ''KELT-4A b'', mag_depth = 1 / 50, n_samples = None,
      t_begin = Some (utc_moment 20 0 be), t_center = utc_moment 21 0 ce,
      t_end = Some (utc_moment 22 0 ee)\<rparr>"

definition threshold_cfg :: "int \<Rightarrow> config" where
  "threshold_cfg thr = \<lparr>min_mag_depth = 1 / 100, elevation_threshold = thr,
                         min_start_time = ''18:00+00:00'', max_end_time = ''23:00+00:00''\<rparr>"

definition counted_transit :: "string \<Rightarrow> real \<Rightarrow> int option \<Rightarrow> transit" where
  "counted_transit name depth n =
     \<lparr>object = name, mag_depth = depth, n_samples = n,
      t_begin = Some (utc_moment 20 0 30), t_center = utc_moment 21 0 40,
      t_end = Some (utc_moment 22 0 50)\<rparr>"

definition utc_time :: "int \<Rightarrow> int \<Rightarrow> int option \<Rightarrow> pytime" where
  "utc_time h mi off = \<lparr>t_hour = h, t_minute = mi, t_second = 0, t_microsecond = 0, utcoffset = off\<rparr>"

definition example_lib :: library where
  "example_lib =
     \<lparr>today_year = 2023,
      float_of = (\<lambda>s. if s = ''0.5'' then Some (1 / 2) else if s = ''0.125'' then Some (1 / 8) else None),
      str_of_float = (\<lambda>x. if x = 1 / 2 then ''0.5'' else ''0.125''),
      time_fromisoformat =
        (\<lambda>s. if s = ''18:00+00:00'' then Some (utc_time 18 0 (Some 0))
             else if s = ''23:00+00:00'' then Some (utc_time 23 0 (Some 0))
             else if s = ''18:00'' then Some (utc_time 18 0 None)
             else if s = ''23:00'' then Some (utc_time 23 0 None)
             else if s = ''20:00+02:00'' then Some (utc_time 20 0 (Some 120))
             else if s = ''01:00+02:00'' then Some (utc_time 1 0 (Some 120))
             else None),
      fetch_samples = (\<lambda>star planet. if star = ''KELT-4A'' then Some 5 else Some 2)\<rparr>"

definition example_cfg :: config where
  "example_cfg = \<lparr>min_mag_depth = 1 / 4, elevation_threshold = 20,
                   min_start_time = ''18:00+00:00'', max_end_time = ''23:00+00:00''\<rparr>"

text \<open>A table row with a link: object, begin, center, end, two more cells, depth.\<close>

definition example_row :: "string \<Rightarrow> string \<Rightarrow> string \<Rightarrow> string \<Rightarrow> string \<Rightarrow> row" where
  "example_row name b c e depth =
     \<lparr>link = Some name, tds = [name, b, c, e, ''1.5'', ''V'', depth]\<rparr>"

text \<open>
  A row whose begin text does not match the pattern, a row that parses, and the transit
  the first one becomes.
\<close>

definition no_begin_row :: "string \<Rightarrow> row" where
  "no_begin_row depth =
     example_row ''WASP-3 b'' ''n/a'' (''08.06. 21:0040'' @ deg # '',NE'') (''22:0050'' @ [deg]) depth"

definition kelt_row :: row where
  "kelt_row =
     example_row ''KELT-4A b'' (''20:0030'' @ [deg]) (''08.06. 21:0040'' @ deg # '',NE'')
       (''22:0050'' @ [deg]) ''0.5''"

definition no_begin_transit :: "real \<Rightarrow> transit" where
  "no_begin_transit depth =
     \<lparr>object = ''WASP-3 b'', mag_depth = depth, n_samples = None,
      t_begin = None, t_center = utc_moment 21 0 40, t_end = Some (utc_moment 22 0 50)\<rparr>"

text \<open>
  A time of day with its fields in range, and its distance from midnight UTC in
  microseconds: the offset is subtracted from the minutes, without wrapping at midnight.
\<close>

definition valid_time :: "pytime \<Rightarrow> bool" where
  "valid_time t \<longleftrightarrow> 0 \<le> t_minute t \<and> t_minute t \<le> 59 \<and> 0 \<le> t_second t \<and> t_second t \<le> 59
                    \<and> 0 \<le> t_microsecond t \<and> t_microsecond t \<le> 999999"

definition utc_microseconds :: "pytime \<Rightarrow> int" where
  "utc_microseconds t =
     ((t_hour t * 60 + t_minute t - (case utcoffset t of None \<Rightarrow> 0 | Some off \<Rightarrow> off)) * 60
        + t_second t) * 1000000 + t_microsecond t"

definition window_transit :: "int \<Rightarrow> int \<Rightarrow> int \<Rightarrow> int \<Rightarrow> transit" where
  "window_transit bh bm eh em =
     \<lparr>object = ''KELT-4A b'', mag_depth = 1 / 2, n_samples = None,
      t_begin = Some (utc_moment bh bm 30), t_center = utc_moment 21 0 40,
      t_end = Some (utc_moment eh em 50)\<rparr>"

definition naive_cfg :: config where
  "naive_cfg = \<lparr>min_mag_depth = 1 / 4, elevation_threshold = 20,
                 min_start_time = ''18:00'', max_end_time = ''23:00''\<rparr>"

definition cest_cfg :: config where
  "cest_cfg = \<lparr>min_mag_depth = 1 / 4, elevation_threshold = 20,
                min_start_time = ''20:00+02:00'', max_end_time = ''01:00+02:00''\<rparr>"

text \<open>
  A datetime the constructor accepts, its proleptic Gregorian ordinal (day 1 is the first
  of January of year 1) and its distance in minutes from the start of that calendar.
\<close>

definition valid_datetime :: "datetime \<Rightarrow> bool" where
  "valid_datetime dt \<longleftrightarrow>
     mk_datetime (year dt) (month dt) (day dt) (hour dt) (minute dt) = Inr dt"

definition toordinal :: "datetime \<Rightarrow> int" where
  "toordinal dt =
     365 * (year dt - 1) + (year dt - 1) div 4 - (year dt - 1) div 100 + (year dt - 1) div 400
       + sum_list (map (days_in_month (year dt)) [1..month dt - 1]) + day dt"

definition utc_minutes :: "datetime \<Rightarrow> int" where
  "utc_minutes dt = (toordinal dt * 24 + hour dt) * 60 + minute dt"

section \<open>Properties\<close>

subsection \<open>The meridian-flip filter\<close>

text \<open>
  C3. On a transit whose begin and end are set, \<^verbatim>\<open>filter_meridian_flip\<close> returns False
  (discard) exactly when the begin elevation and the end elevation are both below the
  center elevation. The elevations (10, 30, 15) are discarded, (30, 10, 40) and
  (10, 30, 40) are kept.
\<close>

theorem filter_meridian_flip_discards_iff:
  assumes "t_begin t = Some b" and "t_end t = Some e"
  shows "filter_meridian_flip t =
           Inr (\<not> (elevation b < elevation (t_center t) \<and> elevation e < elevation (t_center t)))"
  using assms by (simp add: filter_meridian_flip_def)

theorem filter_meridian_flip_discards_iff_witness:
  "t_begin (elev_transit 10 30 15) = Some (utc_moment 20 0 10)
   \<and> t_end (elev_transit 10 30 15) = Some (utc_moment 22 0 15)
   \<and> filter_meridian_flip (elev_transit 10 30 15) = Inr False
   \<and> filter_meridian_flip (elev_transit 30 10 40) = Inr True
   \<and> filter_meridian_flip (elev_transit 10 30 40) = Inr True"
  using filter_meridian_flip_discards_iff
          [of "elev_transit 10 30 15" "utc_moment 20 0 10" "utc_moment 22 0 15"]
    filter_meridian_flip_discards_iff
          [of "elev_transit 30 10 40" "utc_moment 20 0 30" "utc_moment 22 0 40"]
    filter_meridian_flip_discards_iff
          [of "elev_transit 10 30 40" "utc_moment 20 0 10" "utc_moment 22 0 40"]
  by (simp add: elev_transit_def utc_moment_def)

subsection \<open>The elevation filter\<close>

text \<open>
  C5. On a transit whose begin and end are set, \<^verbatim>\<open>filter_elevation\<close> returns True
  (keep) exactly when the begin, center and end elevations are all at or above the
  configured threshold. With threshold 20 a center elevation of exactly 20 is kept and a
  single sample at 19 is discarded.
\<close>

theorem filter_elevation_keeps_iff:
  assumes "t_begin t = Some b" and "t_end t = Some e"
  shows "filter_elevation t cfg =
           Inr (elevation b \<ge> elevation_threshold cfg
                \<and> elevation (t_center t) \<ge> elevation_threshold cfg
                \<and> elevation e \<ge> elevation_threshold cfg)"
  using assms by (auto simp add: filter_elevation_def)

theorem filter_elevation_keeps_iff_witness:
  "t_begin (elev_transit 25 20 30) = Some (utc_moment 20 0 25)
   \<and> t_end (elev_transit 25 20 30) = Some (utc_moment 22 0 30)
   \<and> filter_elevation (elev_transit 25 20 30) (threshold_cfg 20) = Inr True
   \<and> filter_elevation (elev_transit 20 20 20) (threshold_cfg 20) = Inr True
   \<and> filter_elevation (elev_transit 19 25 30) (threshold_cfg 20) = Inr False
   \<and> filter_elevation (elev_transit 25 19 30) (threshold_cfg 20) = Inr False
   \<and> filter_elevation (elev_transit 25 30 19) (threshold_cfg 20) = Inr False"
  using filter_elevation_keeps_iff
          [of "elev_transit 25 20 30" "utc_moment 20 0 25" "utc_moment 22 0 30" "threshold_cfg 20"]
    filter_elevation_keeps_iff
          [of "elev_transit 20 20 20" "utc_moment 20 0 20" "utc_moment 22 0 20" "threshold_cfg 20"]
    filter_elevation_keeps_iff
          [of "elev_transit 19 25 30" "utc_moment 20 0 19" "utc_moment 22 0 30" "threshold_cfg 20"]
    filter_elevation_keeps_iff
          [of "elev_transit 25 19 30" "utc_moment 20 0 25" "utc_moment 22 0 30" "threshold_cfg 20"]
    filter_elevation_keeps_iff
          [of "elev_transit 25 30 19" "utc_moment 20 0 25" "utc_moment 22 0 19" "threshold_cfg 20"]
  by (simp add: elev_transit_def utc_moment_def threshold_cfg_def)

subsection \<open>The depth filter\<close>

lemma filter_transits_eq_filter:
  "filter_transits lib cfg ts = Inr kept \<Longrightarrow>
     kept = filter (\<lambda>t. admissible lib cfg t = Inr True) ts"
  by (induction ts arbitrary: kept) (auto split: sum.splits if_splits)

lemma admissible_depth: "admissible lib cfg t = Inr True \<Longrightarrow> filter_depth cfg t"
  by (auto simp: admissible_def split: if_splits)

text \<open>
  C9. The depth filter keeps a transit exactly when its \<^verbatim>\<open>mag_depth\<close> is at least the
  configured \<^verbatim>\<open>min_mag_depth\<close>: a transit below it is discarded by the filter chain
  whatever the other filters would say, and every transit the chain keeps is at or above it.
\<close>

theorem filter_depth_keeps_iff:
  "(filter_depth cfg t \<longleftrightarrow> mag_depth t \<ge> min_mag_depth cfg)
   \<and> (\<not> mag_depth t \<ge> min_mag_depth cfg \<longrightarrow> admissible lib cfg t = Inr False)
   \<and> (filter_transits lib cfg ts = Inr kept \<longrightarrow>
        (\<forall>k \<in> set kept. mag_depth k \<ge> min_mag_depth cfg)
        \<and> (\<forall>k \<in> set ts. \<not> mag_depth k \<ge> min_mag_depth cfg \<longrightarrow> k \<notin> set kept))"
proof (intro conjI impI)
  show "filter_depth cfg t \<longleftrightarrow> mag_depth t \<ge> min_mag_depth cfg"
    by (simp add: filter_depth_def)
  show "admissible lib cfg t = Inr False" if "\<not> mag_depth t \<ge> min_mag_depth cfg"
    using that by (simp add: admissible_def filter_depth_def)
  assume "filter_transits lib cfg ts = Inr kept"
  then have k: "kept = filter (\<lambda>t. admissible lib cfg t = Inr True) ts"
    by (rule filter_transits_eq_filter)
  show "\<forall>k \<in> set kept. mag_depth k \<ge> min_mag_depth cfg"
    using k admissible_depth by (auto simp: filter_depth_def)
  then show "\<forall>k \<in> set ts. \<not> mag_depth k \<ge> min_mag_depth cfg \<longrightarrow> k \<notin> set kept"
    by auto
qed

theorem filter_depth_keeps_iff_witness:
  "filter_transits example_lib example_cfg
       [counted_transit ''WASP-3 b'' (1 / 8) None, counted_transit ''KELT-4A b'' (1 / 2) None]
     = Inr [counted_transit ''KELT-4A b'' (1 / 2) None]
   \<and> \<not> mag_depth (counted_transit ''WASP-3 b'' (1 / 8) None) \<ge> min_mag_depth example_cfg
   \<and> admissible example_lib example_cfg (counted_transit ''WASP-3 b'' (1 / 8) None) = Inr False
   \<and> counted_transit ''WASP-3 b'' (1 / 8) None \<notin> set [counted_transit ''KELT-4A b'' (1 / 2) None]
   \<and> filter_depth example_cfg (counted_transit ''KELT-4A b'' (1 / 2) None)"
proof -
  have f: "filter_transits example_lib example_cfg
       [counted_transit ''WASP-3 b'' (1 / 8) None, counted_transit ''KELT-4A b'' (1 / 2) None]
     = Inr [counted_transit ''KELT-4A b'' (1 / 2) None]"
    by (simp add: example_lib_def example_cfg_def counted_transit_def utc_moment_def utc_time_def
      admissible_def filter_depth_def filter_meridian_flip_def filter_time_def filter_elevation_def
      time_cmp_def timetz_def)
  have d: "\<not> mag_depth (counted_transit ''WASP-3 b'' (1 / 8) None) \<ge> min_mag_depth example_cfg"
    by (simp add: counted_transit_def example_cfg_def)
  have e: "mag_depth (counted_transit ''KELT-4A b'' (1 / 2) None) \<ge> min_mag_depth example_cfg"
    by (simp add: counted_transit_def example_cfg_def)
  from filter_depth_keeps_iff [of example_cfg "counted_transit ''WASP-3 b'' (1 / 8) None" example_lib
      "[counted_transit ''WASP-3 b'' (1 / 8) None, counted_transit ''KELT-4A b'' (1 / 2) None]"
      "[counted_transit ''KELT-4A b'' (1 / 2) None]"]
    filter_depth_keeps_iff [of example_cfg "counted_transit ''KELT-4A b'' (1 / 2) None" example_lib "[]" "[]"]
    f d e
  show ?thesis by simp
qed

subsection \<open>The ranking\<close>



subsection \<open>What the pipeline changes\<close>

lemma filter_transits_subseq:
  "filter_transits lib cfg ts = Inr kept \<Longrightarrow> subseq kept ts"
  by (induction ts arbitrary: kept) (auto split: sum.splits if_splits)

lemma enrich_only_n_samples:
  "enrich lib ts = Inr en \<Longrightarrow>
     list_all2 (\<lambda>t' t. \<exists>n. t' = t\<lparr>n_samples := Some n\<rparr>) en ts"
  by (induction ts arbitrary: en) (auto split: sum.splits)

lemma sort_by_samples_mset: "sort_by_samples ts = Inr out \<Longrightarrow> mset out = mset ts"
  by (auto simp: sort_by_samples_def split: if_splits)

text \<open>
  C10. The filters only select: the transits they keep are a subsequence of the transits
  read, unchanged and in the same order. The enrichment sets \<^verbatim>\<open>n_samples\<close> on each
  kept transit, once, and changes no other field; the ranking permutes the enriched
  transits. So a ranked transit differs from the transit built from its row in
  \<^verbatim>\<open>n_samples\<close> only.
\<close>

theorem rank_transits_frame:
  assumes "rank_transits lib cfg ts = Inr out"
  shows "\<exists>kept en. filter_transits lib cfg ts = Inr kept \<and> subseq kept ts
           \<and> enrich lib kept = Inr en
           \<and> list_all2 (\<lambda>t' t. \<exists>n. t' = t\<lparr>n_samples := Some n\<rparr>) en kept
           \<and> mset out = mset en"
proof -
  from assms obtain kept en where k: "filter_transits lib cfg ts = Inr kept"
    and e: "enrich lib kept = Inr en" and s: "sort_by_samples en = Inr out"
    by (auto simp: rank_transits_def split: sum.splits)
  show ?thesis
    using k e filter_transits_subseq [OF k] enrich_only_n_samples [OF e] sort_by_samples_mset [OF s]
    by blast
qed

theorem rank_transits_frame_witness:
  "rank_transits example_lib example_cfg
       [counted_transit ''WASP-3 b'' (1 / 2) None, counted_transit ''XO-1 b'' (1 / 8) None,
        counted_transit ''KELT-4A b'' (1 / 2) None]
     = Inr [counted_transit ''WASP-3 b'' (1 / 2) (Some 2), counted_transit ''KELT-4A b'' (1 / 2) (Some 5)]
   \<and> (\<exists>kept en.
         filter_transits example_lib example_cfg
           [counted_transit ''WASP-3 b'' (1 / 2) None, counted_transit ''XO-1 b'' (1 / 8) None,
            counted_transit ''KELT-4A b'' (1 / 2) None] = Inr kept
         \<and> subseq kept [counted_transit ''WASP-3 b'' (1 / 2) None, counted_transit ''XO-1 b'' (1 / 8) None,
                          counted_transit ''KELT-4A b'' (1 / 2) None]
         \<and> enrich example_lib kept = Inr en
         \<and> list_all2 (\<lambda>t' t. \<exists>n. t' = t\<lparr>n_samples := Some n\<rparr>) en kept
         \<and> mset [counted_transit ''WASP-3 b'' (1 / 2) (Some 2),
                  counted_transit ''KELT-4A b'' (1 / 2) (Some 5)] = mset en)"
proof -
  have r: "rank_transits example_lib example_cfg
       [counted_transit ''WASP-3 b'' (1 / 2) None, counted_transit ''XO-1 b'' (1 / 8) None,
        counted_transit ''KELT-4A b'' (1 / 2) None]
     = Inr [counted_transit ''WASP-3 b'' (1 / 2) (Some 2), counted_transit ''KELT-4A b'' (1 / 2) (Some 5)]"
    by (simp add: rank_transits_def sort_by_samples_def get_database_sample_number_def
        example_lib_def example_cfg_def counted_transit_def utc_moment_def utc_time_def
        admissible_def filter_depth_def filter_meridian_flip_def filter_time_def
        filter_elevation_def time_cmp_def timetz_def)
  from rank_transits_frame [OF r] r show ?thesis by blast
qed

subsection \<open>Parsing by fixed field widths\<close>

text \<open>
  The two patterns on a text of the expected shape: one or two digits of hour, a colon,
  two digits of minute, an optional minus sign, one or two digits of elevation, the degree
  sign; for the center, two digits of day and two of month before it.
\<close>

lemma not_digit_colon: "\<not> digit CHR '':''" by (simp add: digit_def)
lemma not_digit_minus: "\<not> digit CHR ''-''" by (simp add: digit_def)
lemma not_digit_deg: "\<not> digit deg" by (simp add: digit_def deg_def)
lemma digit_neq: "digit c \<Longrightarrow> c \<noteq> CHR '':'' \<and> c \<noteq> CHR ''-'' \<and> c \<noteq> deg"
  using not_digit_colon not_digit_minus not_digit_deg by blast

lemma len_1_2: "length xs = 1 \<or> length xs = 2 \<Longrightarrow> (\<exists>a. xs = [a]) \<or> (\<exists>a b. xs = [a, b])"
  by (cases xs; cases "tl xs"; cases "tl (tl xs)") auto

lemma len_2: "length xs = 2 \<Longrightarrow> \<exists>a b. xs = [a, b]"
  by (cases xs; cases "tl xs"; cases "tl (tl xs)") auto

lemma elev_part:
  assumes "sg = [] \<or> sg = ''-''" "length e = 1 \<or> length e = 2" "list_all digit e"
  shows "(do { (sg', r4) \<leftarrow> opt_minus (sg @ e @ deg # rest);
               (e', r5) \<leftarrow> digits_1_2 r4;
               r6 \<leftarrow> lit deg r5;
               [(h, m, sg' @ e')] }) \<noteq> []
         \<and> hd (do { (sg', r4) \<leftarrow> opt_minus (sg @ e @ deg # rest);
               (e', r5) \<leftarrow> digits_1_2 r4;
               r6 \<leftarrow> lit deg r5;
               [(h, m, sg' @ e')] }) = (h, m, sg @ e)"
proof -
  from len_1_2 [OF assms(2)] consider a where "e = [a]" | a b where "e = [a, b]" by blast
  then show ?thesis
  proof cases
    case 1
    with assms(3) have "digit a" by simp
    with 1 assms(1) show ?thesis
      using digit_neq [of a]
      by (auto simp: opt_minus_def digits_1_2_def digits_n_def lit_def not_digit_deg)
  next
    case 2
    with assms(3) have "digit a" "digit b" by simp_all
    with 2 assms(1) show ?thesis
      using digit_neq [of a] digit_neq [of b]
      by (auto simp: opt_minus_def digits_1_2_def digits_n_def lit_def not_digit_deg)
  qed
qed


lemma time_elev_shape:
  assumes "length h = 1 \<or> length h = 2" "list_all digit h" "length m = 2" "list_all digit m"
    "sg = [] \<or> sg = ''-''" "length e = 1 \<or> length e = 2" "list_all digit e"
  shows "time_elev_matches (h @ CHR '':'' # m @ sg @ e @ deg # rest) \<noteq> []
         \<and> hd (time_elev_matches (h @ CHR '':'' # m @ sg @ e @ deg # rest)) = (h, m, sg @ e)"
proof -
  define tl where "tl = sg @ e @ deg # rest"
  define K where "K = (\<lambda>(h'::string) (m'::string). do { (sg', r4) \<leftarrow> opt_minus tl;
               (e', r5) \<leftarrow> digits_1_2 r4;
               r6 \<leftarrow> lit deg r5;
               [(h', m', sg' @ e')] })"
  have ep: "K h m \<noteq> [] \<and> hd (K h m) = (h, m, sg @ e)"
    unfolding K_def tl_def by (rule elev_part [OF assms(5,6,7)])
  from len_2 [OF assms(3)] obtain c d where m: "m = [c, d]" by blast
  with assms(4) have cd: "digit c" "digit d" by simp_all
  have min: "digits_n 2 (m @ tl) = [(m, tl)]"
    using m cd by (simp add: digits_n_def)
  have col: "lit CHR '':'' (CHR '':'' # m @ tl) = [m @ tl]"
    by (simp add: lit_def)
  have unf: "time_elev_matches s =
     do { (h', r1) \<leftarrow> digits_1_2 s;
          r2 \<leftarrow> lit CHR '':'' r1;
          (m', r3) \<leftarrow> digits_n 2 r2;
          (sg', r4) \<leftarrow> opt_minus r3;
          (e', r5) \<leftarrow> digits_1_2 r4;
          r6 \<leftarrow> lit deg r5;
          [(h', m', sg' @ e')] }" for s
    by (simp add: time_elev_matches_def)
  from len_1_2 [OF assms(1)] consider a where "h = [a]" | a b where "h = [a, b]" by blast
  then have "time_elev_matches (h @ CHR '':'' # m @ tl) = K h m"
  proof cases
    case 1
    with assms(2) have a: "digit a" by simp
    have hd12: "digits_1_2 (h @ CHR '':'' # m @ tl) = [(h, CHR '':'' # m @ tl)]"
      using 1 a by (simp add: digits_1_2_def digits_n_def not_digit_colon)
    show ?thesis
      unfolding unf hd12 by (simp add: col min K_def)
  next
    case 2
    with assms(2) have ab: "digit a" "digit b" by simp_all
    have hd12: "digits_1_2 (h @ CHR '':'' # m @ tl)
                  = [(h, CHR '':'' # m @ tl), ([a], b # CHR '':'' # m @ tl)]"
      using 2 ab by (simp add: digits_1_2_def digits_n_def)
    have bcol: "lit CHR '':'' (b # CHR '':'' # m @ tl) = []"
      using digit_neq [OF ab(2)] by (simp add: lit_def)
    show ?thesis
      unfolding unf hd12 by (simp add: col min bcol K_def)
  qed
  with ep show ?thesis by (simp add: tl_def)
qed

lemma search_start_end_shape:
  assumes "length h = 1 \<or> length h = 2" "list_all digit h" "length m = 2" "list_all digit m"
    "sg = [] \<or> sg = ''-''" "length e = 1 \<or> length e = 2" "list_all digit e"
  shows "search_start_end (h @ CHR '':'' # m @ sg @ e @ deg # rest) = Some (h, m, sg @ e)"
  using time_elev_shape [OF assms, of rest]
  by (cases "time_elev_matches (h @ CHR '':'' # m @ sg @ e @ deg # rest)")
     (simp_all add: search_start_end_def)

lemma search_center_shape:
  assumes "length d = 2" "list_all digit d" "length mo = 2" "list_all digit mo"
    "length h = 1 \<or> length h = 2" "list_all digit h" "length m = 2" "list_all digit m"
    "sg = [] \<or> sg = ''-''" "length e = 1 \<or> length e = 2" "list_all digit e"
  shows "search_center (d @ CHR ''.'' # mo @ CHR ''.'' # CHR '' '' # h @ CHR '':'' # m @ sg @ e @ deg # rest)
           = Some (d, mo, h, m, sg @ e)"
proof -
  from len_2 [OF assms(1)] obtain d1 d2 where d: "d = [d1, d2]" by blast
  from len_2 [OF assms(3)] obtain m1 m2 where mo: "mo = [m1, m2]" by blast
  from d mo assms(2,4) have dig: "digit d1" "digit d2" "digit m1" "digit m2" by simp_all
  from time_elev_shape [OF assms(5-11), of rest]
  obtain g gs where g: "time_elev_matches (h @ CHR '':'' # m @ sg @ e @ deg # rest) = g # gs"
    and gv: "g = (h, m, sg @ e)"
    by (cases "time_elev_matches (h @ CHR '':'' # m @ sg @ e @ deg # rest)") auto
  show ?thesis
    using d mo dig g gv
    by (simp add: search_center_def center_matches_def digits_n_def lit_def)
qed

text \<open>
  C7. On every text of that shape the match is decided by the field widths alone: the
  minute group is the two digits after the colon and the elevation group is the sign and
  the one or two digits that follow, up to the degree sign, whatever comes after it. The
  moment built has the hour, minute and elevation these groups denote. The text
  \<^verbatim>\<open>11:0969\<close> with the degree sign gives hour 11, minute 9, elevation 69, in the
  begin/end form and in the center form.
\<close>

theorem fixed_width_parse:
  assumes "length h = 1 \<or> length h = 2" and "list_all digit h"
    and "length m = 2" and "list_all digit m"
    and "sg = [] \<or> sg = ''-''"
    and "length e = 1 \<or> length e = 2" and "list_all digit e"
  shows "search_start_end (h @ CHR '':'' # m @ sg @ e @ deg # rest) = Some (h, m, sg @ e)
         \<and> extractStartEndTimes y mo d (h @ CHR '':'' # m @ sg @ e @ deg # rest)
             = (case mk_datetime y mo d (py_int h) (py_int m) of
                  Inl err \<Rightarrow> Inl err
                | Inr dt \<Rightarrow> Inr (Some \<lparr>time = dt, elevation = py_int (sg @ e)\<rparr>))
         \<and> (length dd = 2 \<and> list_all digit dd \<and> length mm = 2 \<and> list_all digit mm \<longrightarrow>
              search_center (dd @ CHR ''.'' # mm @ CHR ''.'' # CHR '' '' # h @ CHR '':'' # m @ sg @ e @ deg # rest)
                = Some (dd, mm, h, m, sg @ e))"
proof (intro conjI impI)
  show s: "search_start_end (h @ CHR '':'' # m @ sg @ e @ deg # rest) = Some (h, m, sg @ e)"
    by (rule search_start_end_shape [OF assms])
  show "extractStartEndTimes y mo d (h @ CHR '':'' # m @ sg @ e @ deg # rest)
             = (case mk_datetime y mo d (py_int h) (py_int m) of
                  Inl err \<Rightarrow> Inl err
                | Inr dt \<Rightarrow> Inr (Some \<lparr>time = dt, elevation = py_int (sg @ e)\<rparr>))"
    by (simp add: extractStartEndTimes_def s)
  assume c: "length dd = 2 \<and> list_all digit dd \<and> length mm = 2 \<and> list_all digit mm"
  show "search_center (dd @ CHR ''.'' # mm @ CHR ''.'' # CHR '' '' # h @ CHR '':'' # m @ sg @ e @ deg # rest)
                = Some (dd, mm, h, m, sg @ e)"
    using c assms by (intro search_center_shape) simp_all
qed

theorem fixed_width_parse_witness:
  "list_all digit ''11'' \<and> list_all digit ''09'' \<and> list_all digit ''69''
   \<and> search_start_end (''11:0969'' @ deg # '',NE'') = Some (''11'', ''09'', ''69'')
   \<and> extractStartEndTimes 2023 6 8 (''11:0969'' @ deg # '',NE'')
        = Inr (Some \<lparr>time = \<lparr>year = 2023, month = 6, day = 8, hour = 11, minute = 9\<rparr>,
                     elevation = 69\<rparr>)
   \<and> search_center (''08.06. 11:0969'' @ deg # '',NE'') = Some (''08'', ''06'', ''11'', ''09'', ''69'')
   \<and> extractStartEndTimes 2023 6 8 (''9:05-3'' @ deg # '',N'')
        = Inr (Some \<lparr>time = \<lparr>year = 2023, month = 6, day = 8, hour = 9, minute = 5\<rparr>,
                     elevation = - 3\<rparr>)"
proof -
  have d: "list_all digit ''11''" "list_all digit ''09''" "list_all digit ''69''"
    "list_all digit ''08''" "list_all digit ''06''" "list_all digit ''9''" "list_all digit ''05''"
    "list_all digit ''3''"
    by (simp_all add: digit_def)
  have v: "py_int ''11'' = 11" "py_int ''09'' = 9" "py_int ''69'' = 69" "py_int ''9'' = 9"
    "py_int ''05'' = 5" "py_int ''-3'' = - 3"
    by (simp_all add: py_int_def digit_val_def)
  have k: "mk_datetime 2023 6 8 11 9 = Inr \<lparr>year = 2023, month = 6, day = 8, hour = 11, minute = 9\<rparr>"
    "mk_datetime 2023 6 8 9 5 = Inr \<lparr>year = 2023, month = 6, day = 8, hour = 9, minute = 5\<rparr>"
    by (simp_all add: mk_datetime_def days_in_month_def)
  from fixed_width_parse [of "''11''" "''09''" "[]" "''69''" "'',NE''" 2023 6 8 "''08''" "''06''"]
    fixed_width_parse [of "''9''" "''05''" "''-''" "''3''" "'',N''" 2023 6 8 "''08''" "''06''"]
    d v k
  show ?thesis by simp
qed

subsection \<open>The order of the three moments\<close>








subsection \<open>A begin or end text that does not match\<close>

text \<open>The example rows, evaluated step by step.\<close>

lemmas regex_defs = search_center_def center_matches_def time_elev_matches_def digits_1_2_def digits_n_def
      lit_def opt_minus_def digit_def deg_def py_int_def digit_val_def mk_datetime_def
      days_in_month_def extractStartEndTimes_def search_start_end_def

lemma read_no_begin_row: "read_row example_lib (no_begin_row ''0.125'') = Built (no_begin_transit (1 / 8))"
  "read_row example_lib (no_begin_row ''0.5'') = Built (no_begin_transit (1 / 2))"
  by (simp_all add: read_row_def no_begin_row_def no_begin_transit_def example_row_def example_lib_def
      utc_moment_def regex_defs)

lemma read_kelt_row: "read_row example_lib kelt_row = Built (counted_transit ''KELT-4A b'' (1 / 2) None)"
  by (simp add: read_row_def kelt_row_def example_row_def example_lib_def utc_moment_def
      counted_transit_def regex_defs)

lemmas filter_defs = admissible_def filter_depth_def filter_meridian_flip_def filter_time_def
        filter_elevation_def time_cmp_def timetz_def

lemma rank_shallow_no_begin: "rank_transits example_lib example_cfg
    [no_begin_transit (1 / 8), counted_transit ''KELT-4A b'' (1 / 2) None]
   = Inr [counted_transit ''KELT-4A b'' (1 / 2) (Some 5)]"
  by (simp add: rank_transits_def sort_by_samples_def get_database_sample_number_def no_begin_transit_def
        example_lib_def example_cfg_def counted_transit_def utc_moment_def utc_time_def filter_defs)

lemma rank_deep_no_begin: "rank_transits example_lib example_cfg
    [no_begin_transit (1 / 2), counted_transit ''KELT-4A b'' (1 / 2) None] = Inl KeyError"
  by (simp add: rank_transits_def sort_by_samples_def get_database_sample_number_def no_begin_transit_def
        example_lib_def example_cfg_def counted_transit_def utc_moment_def utc_time_def filter_defs)

lemma str_int_examples: "str_int 5 = ''5''" "str_int 30 = ''30''" "str_int 40 = ''40''" "str_int 50 = ''50''"
  by code_simp+

lemma strftime_examples: "strftime \<lparr>year = 2023, month = 6, day = 8, hour = 22, minute = 0\<rparr> = ''2023-06-08 22:00''"
  "strftime \<lparr>year = 2023, month = 6, day = 8, hour = 23, minute = 0\<rparr> = ''2023-06-08 23:00''"
  "strftime \<lparr>year = 2023, month = 6, day = 9, hour = 0, minute = 0\<rparr> = ''2023-06-09 00:00''"
  by code_simp+

lemma csv_row_kelt: "csv_row example_lib (counted_transit ''KELT-4A b'' (1 / 2) (Some 5))
   = Inr ''KELT-4A b;0.5;5;2023-06-08 22:00;30;2023-06-08 23:00;40;2023-06-09 00:00;50''"
  by (simp add: csv_row_def counted_transit_def utc_moment_def astimezone_cest_def days_in_month_def
      example_lib_def str_int_examples strftime_examples)

lemma header_line: "join '';'' header = ''object;mag_depth;n_samples;begin time (cest);begin elevation;center time (cest);center elevation;end time (cest);end elevation''"
  by (simp add: header_def)

text \<open>
  C2 on the program. A center text that does not match ends \<^verbatim>\<open>main\<close> with a message
  and no table; a begin or end text that does not match raises nothing in
  \<^verbatim>\<open>extractStartEndTimes\<close>, which has no else branch, and the transit is appended with
  an empty begin. When its depth is below the threshold the depth filter drops it and the
  run prints the table of the other rows; when its depth passes, the meridian filter raises
  KeyError on it.
\<close>

theorem main_unparsable_begin:
  "read_row example_lib (no_begin_row ''0.125'') = Built (no_begin_transit (1 / 8))
   \<and> t_begin (no_begin_transit (1 / 8)) = None
   \<and> main example_lib example_cfg [no_begin_row ''0.125'', kelt_row]
     = ([''object;mag_depth;n_samples;begin time (cest);begin elevation;center time (cest);center elevation;end time (cest);end elevation'',
         ''KELT-4A b;0.5;5;2023-06-08 22:00;30;2023-06-08 23:00;40;2023-06-09 00:00;50''], None)
   \<and> main example_lib example_cfg [no_begin_row ''0.5'', kelt_row] = ([], Some KeyError)"
  by (simp add: main_def read_no_begin_row read_kelt_row rank_shallow_no_begin rank_deep_no_begin print_transits_csv_def csv_row_kelt header_line)
     (simp add: no_begin_transit_def)

subsection \<open>The time-window filter\<close>

lemma cmp_list_3_linear:
  fixes a1 a2 a3 b1 b2 b3 :: int
  assumes "0 \<le> a2" "a2 \<le> 59" "0 \<le> a3" "a3 \<le> 999999" "0 \<le> b2" "b2 \<le> 59" "0 \<le> b3" "b3 \<le> 999999"
  shows "(0 \<le> cmp_list [a1, a2, a3] [b1, b2, b3])
           = ((b1 * 60 + b2) * 1000000 + b3 \<le> (a1 * 60 + a2) * 1000000 + a3)"
    and "(cmp_list [a1, a2, a3] [b1, b2, b3] \<le> 0)
           = ((a1 * 60 + a2) * 1000000 + a3 \<le> (b1 * 60 + b2) * 1000000 + b3)"
  using assms by auto

lemma cmp_list_4_minutes:
  fixes a0 a1 a2 a3 b0 b1 b2 b3 :: int
  assumes "0 \<le> a1" "a1 \<le> 59" "0 \<le> b1" "b1 \<le> 59"
  shows "cmp_list [a0, a1, a2, a3] [b0, b1, b2, b3]
           = cmp_list [a0 * 60 + a1 - off, a2, a3] [b0 * 60 + b1 - off, b2, b3]"
  using assms by auto

lemma time_cmp_aware:
  assumes "utcoffset a = Some oa" "utcoffset b = Some ob" "valid_time a" "valid_time b"
  shows "\<exists>c. time_cmp a b = Inr c
            \<and> (0 \<le> c \<longleftrightarrow> utc_microseconds b \<le> utc_microseconds a)
            \<and> (c \<le> 0 \<longleftrightarrow> utc_microseconds a \<le> utc_microseconds b)"
proof -
  have c: "time_cmp a b = Inr (cmp_list [t_hour a * 60 + t_minute a - oa, t_second a, t_microsecond a]
                              [t_hour b * 60 + t_minute b - ob, t_second b, t_microsecond b])"
  proof (cases "oa = ob")
    case True
    then show ?thesis
      using assms cmp_list_4_minutes [of "t_minute a" "t_minute b" "t_hour a" "t_second a" "t_microsecond a"
                           "t_hour b" "t_second b" "t_microsecond b" ob]
      by (simp add: time_cmp_def valid_time_def)
  next
    case False
    then show ?thesis using assms by (simp add: time_cmp_def)
  qed
  show ?thesis
    unfolding c using assms
      cmp_list_3_linear [of "t_second a" "t_microsecond a" "t_second b" "t_microsecond b"
               "t_hour a * 60 + t_minute a - oa" "t_hour b * 60 + t_minute b - ob"]
    by (simp add: valid_time_def utc_microseconds_def)
qed

lemma valid_timetz: "0 \<le> minute dt \<Longrightarrow> minute dt \<le> 59 \<Longrightarrow> valid_time (timetz dt)"
  by (simp add: valid_time_def timetz_def)

lemma utc_microseconds_timetz:
  "utc_microseconds (timetz dt) = (hour dt * 60 + minute dt) * 60000000"
  by (simp add: utc_microseconds_def timetz_def)

text \<open>
  C4, as the program has it. When the two configured times parse to times of day that
  carry a UTC offset, \<^verbatim>\<open>filter_time\<close> keeps a transit with begin and end exactly when the
  begin time of day is at or after the configured start and the end time of day at or
  before the configured end, both boundaries included. The comparison is on the distance
  from midnight UTC (hour and minute of the transit, the configured time less its offset,
  not wrapped at midnight); the calendar date plays no part. With the window
  18:00+00:00 to 23:00+00:00, a begin at 17:59 is discarded and a begin at 18:00 with an
  end at 23:00 is kept.
\<close>

theorem filter_time_aware_window:
  assumes "time_fromisoformat lib (min_start_time cfg) = Some mn"
    and "time_fromisoformat lib (max_end_time cfg) = Some mx"
    and "utcoffset mn = Some omn" and "utcoffset mx = Some omx"
    and "valid_time mn" and "valid_time mx"
    and "t_begin t = Some b" and "t_end t = Some e"
    and "0 \<le> minute (time b)" and "minute (time b) \<le> 59"
    and "0 \<le> minute (time e)" and "minute (time e) \<le> 59"
  shows "filter_time lib t cfg =
           Inr (utc_microseconds mn \<le> (hour (time b) * 60 + minute (time b)) * 60000000
                \<and> (hour (time e) * 60 + minute (time e)) * 60000000 \<le> utc_microseconds mx)"
proof -
  have ob: "utcoffset (timetz (time b)) = Some 0" and oe: "utcoffset (timetz (time e)) = Some 0"
    by (simp_all add: timetz_def)
  from time_cmp_aware [OF ob assms(3) valid_timetz [OF assms(9,10)] assms(5)]
  obtain c1 where c1: "time_cmp (timetz (time b)) mn = Inr c1"
    and g1: "0 \<le> c1 \<longleftrightarrow> utc_microseconds mn \<le> utc_microseconds (timetz (time b))"
    by blast
  from time_cmp_aware [OF oe assms(4) valid_timetz [OF assms(11,12)] assms(6)]
  obtain c2 where c2: "time_cmp (timetz (time e)) mx = Inr c2"
    and g2: "c2 \<le> 0 \<longleftrightarrow> utc_microseconds (timetz (time e)) \<le> utc_microseconds mx"
    by blast
  show ?thesis
    using assms(1,2,7,8) c1 c2 g1 g2
    by (simp add: filter_time_def utc_microseconds_timetz)
qed

theorem filter_time_aware_window_witness:
  "time_fromisoformat example_lib (min_start_time example_cfg) = Some (utc_time 18 0 (Some 0))
   \<and> time_fromisoformat example_lib (max_end_time example_cfg) = Some (utc_time 23 0 (Some 0))
   \<and> valid_time (utc_time 18 0 (Some 0)) \<and> valid_time (utc_time 23 0 (Some 0))
   \<and> filter_time example_lib (window_transit 18 0 23 0) example_cfg = Inr True
   \<and> filter_time example_lib (window_transit 17 59 23 0) example_cfg = Inr False
   \<and> filter_time example_lib (window_transit 18 0 23 1) example_cfg = Inr False
   \<and> filter_time example_lib (window_transit 19 0 22 0) cest_cfg = Inr False"
proof -
  have p: "time_fromisoformat example_lib (min_start_time example_cfg) = Some (utc_time 18 0 (Some 0))"
    "time_fromisoformat example_lib (max_end_time example_cfg) = Some (utc_time 23 0 (Some 0))"
    by (simp_all add: example_lib_def example_cfg_def)
  have o: "utcoffset (utc_time 18 0 (Some 0)) = Some 0" "utcoffset (utc_time 23 0 (Some 0)) = Some 0"
    by (simp_all add: utc_time_def)
  have v: "valid_time (utc_time 18 0 (Some 0))" "valid_time (utc_time 23 0 (Some 0))"
    by (simp_all add: valid_time_def utc_time_def)
  have u: "utc_microseconds (utc_time 18 0 (Some 0)) = 64800000000"
    "utc_microseconds (utc_time 23 0 (Some 0)) = 82800000000"
    by (simp_all add: utc_microseconds_def utc_time_def)
  have a: "filter_time example_lib (window_transit 18 0 23 0) example_cfg = Inr True"
    using filter_time_aware_window [OF p o v, of "window_transit 18 0 23 0"
        "utc_moment 18 0 30" "utc_moment 23 0 50"]
    by (simp add: window_transit_def utc_moment_def u)
  have b: "filter_time example_lib (window_transit 17 59 23 0) example_cfg = Inr False"
    using filter_time_aware_window [OF p o v, of "window_transit 17 59 23 0"
        "utc_moment 17 59 30" "utc_moment 23 0 50"]
    by (simp add: window_transit_def utc_moment_def u)
  have c: "filter_time example_lib (window_transit 18 0 23 1) example_cfg = Inr False"
    using filter_time_aware_window [OF p o v, of "window_transit 18 0 23 1"
        "utc_moment 18 0 30" "utc_moment 23 1 50"]
    by (simp add: window_transit_def utc_moment_def u)
  have p': "time_fromisoformat example_lib (min_start_time cest_cfg) = Some (utc_time 20 0 (Some 120))"
    "time_fromisoformat example_lib (max_end_time cest_cfg) = Some (utc_time 1 0 (Some 120))"
    by (simp_all add: example_lib_def cest_cfg_def)
  have o': "utcoffset (utc_time 20 0 (Some 120)) = Some 120" "utcoffset (utc_time 1 0 (Some 120)) = Some 120"
    by (simp_all add: utc_time_def)
  have v': "valid_time (utc_time 20 0 (Some 120))" "valid_time (utc_time 1 0 (Some 120))"
    by (simp_all add: valid_time_def utc_time_def)
  have u': "utc_microseconds (utc_time 20 0 (Some 120)) = 64800000000"
    "utc_microseconds (utc_time 1 0 (Some 120)) = - 3600000000"
    by (simp_all add: utc_microseconds_def utc_time_def)
  have d: "filter_time example_lib (window_transit 19 0 22 0) cest_cfg = Inr False"
    using filter_time_aware_window [OF p' o' v', of "window_transit 19 0 22 0"
        "utc_moment 19 0 30" "utc_moment 22 0 50"]
    by (simp add: window_transit_def utc_moment_def u')
  from p v a b c d show ?thesis by simp
qed

text \<open>
  C4 as stated fails for a window written without an offset: the configured times are
  then naive, the times of the transit are aware, and the comparison raises TypeError
  where the claim has the transit kept (18:00 to 23:00) or discarded (begin 17:59).
\<close>

theorem filter_time_naive_window_counterexample:
  "time_fromisoformat example_lib (min_start_time naive_cfg) = Some (utc_time 18 0 None)
   \<and> time_fromisoformat example_lib (max_end_time naive_cfg) = Some (utc_time 23 0 None)
   \<and> filter_time example_lib (window_transit 18 0 23 0) naive_cfg = Inl TypeError
   \<and> filter_time example_lib (window_transit 17 59 23 0) naive_cfg = Inl TypeError"
  by (simp add: filter_time_def example_lib_def naive_cfg_def window_transit_def utc_moment_def
      utc_time_def time_cmp_def timetz_def)

subsection \<open>The delimited output\<close>

text \<open>The zone conversion of the output moves a valid datetime by two hours.\<close>

lemma valid_datetimeD:
  "valid_datetime dt \<Longrightarrow> 1 \<le> year dt \<and> year dt \<le> 9999 \<and> 1 \<le> month dt \<and> month dt \<le> 12
     \<and> 1 \<le> day dt \<and> day dt \<le> days_in_month (year dt) (month dt)
     \<and> 0 \<le> hour dt \<and> hour dt \<le> 23 \<and> 0 \<le> minute dt \<and> minute dt \<le> 59"
  by (auto simp: valid_datetime_def mk_datetime_def split: if_splits)

lemma days_before_next_month:
  assumes "1 \<le> (m::int)" "m \<le> 12"
  shows "sum_list (map (days_in_month y) [1..m]) =
           sum_list (map (days_in_month y) [1..m - 1]) + days_in_month y m"
proof -
  have "[1..m] = [1..m - 1] @ [m]"
    using assms upto_rec2 [of 1 m] by simp
  then show ?thesis by simp
qed

lemma div_step:
  fixes y n :: int
  assumes "0 < n"
  shows "y div n - (y - 1) div n = (if y mod n = 0 then 1 else 0)"
proof (cases "y mod n = 0")
  case True
  have "y - 1 = n * (y div n - 1) + (n - 1)"
    using True div_mult_mod_eq [of y n] by (simp add: algebra_simps)
  from int_div_pos_eq [OF this] assms have "(y - 1) div n = y div n - 1" by simp
  with True show ?thesis by simp
next
  case False
  have "0 \<le> y mod n" "y mod n < n" using assms by simp_all
  with False have r: "0 < y mod n" "y mod n < n" by simp_all
  have "y - 1 = n * (y div n) + (y mod n - 1)"
    using div_mult_mod_eq [of y n] by (simp add: algebra_simps)
  from int_div_pos_eq [OF this] r have "(y - 1) div n = y div n" by simp
  with False show ?thesis by simp
qed

lemma mod_chain:
  fixes y :: int
  shows "y mod 400 = 0 \<Longrightarrow> y mod 100 = 0" and "y mod 100 = 0 \<Longrightarrow> y mod 4 = 0"
proof -
  have a: "(100::int) dvd 400" and b: "(4::int) dvd 100" by simp_all
  show "y mod 400 = 0 \<Longrightarrow> y mod 100 = 0"
    using dvd_trans [OF a, of y] by (simp add: mod_eq_0_iff_dvd)
  show "y mod 100 = 0 \<Longrightarrow> y mod 4 = 0"
    using dvd_trans [OF b, of y] by (simp add: mod_eq_0_iff_dvd)
qed

lemma days_in_year:
  "sum_list (map (days_in_month y) [1..12]) = 365 + (if is_leap y then 1 else 0)"
  by (simp add: days_in_month_def upto_rec1)

lemma year_step_lin:
  fixes y d4 d100 d400 p4 p100 p400 a b c l :: int
  assumes "d4 - p4 = a" "d100 - p100 = b" "d400 - p400 = c" "l = a - b + c"
  shows "365 * y + d4 - d100 + d400 = 365 * (y - 1) + p4 - p100 + p400 + 365 + l"
  using assms by simp

lemma leap_indicator:
  fixes y :: int
  shows "(if is_leap y then 1 else 0 :: int)
           = (if y mod 4 = 0 then 1 else 0) - (if y mod 100 = 0 then 1 else 0)
               + (if y mod 400 = 0 then 1 else 0)"
proof (cases "y mod 400 = 0")
  case True
  with mod_chain [of y] show ?thesis by (simp add: is_leap_def)
next
  case False
  show ?thesis
  proof (cases "y mod 100 = 0")
    case True
    with False mod_chain(2) [of y] show ?thesis by (simp add: is_leap_def)
  next
    case n100: False
    with False show ?thesis by (simp add: is_leap_def)
  qed
qed

lemma year_step:
  fixes y :: int
  shows "365 * y + y div 4 - y div 100 + y div 400
     = 365 * (y - 1) + (y - 1) div 4 - (y - 1) div 100 + (y - 1) div 400
         + 365 + (if is_leap y then 1 else 0)"
  by (rule year_step_lin [OF div_step div_step div_step leap_indicator]) simp_all

lemma days_in_month_pos: "28 \<le> days_in_month y m"
  by (simp add: days_in_month_def)

lemma valid_datetimeI:
  "1 \<le> year dt \<Longrightarrow> year dt \<le> 9999 \<Longrightarrow> 1 \<le> month dt \<Longrightarrow> month dt \<le> 12 \<Longrightarrow>
   1 \<le> day dt \<Longrightarrow> day dt \<le> days_in_month (year dt) (month dt) \<Longrightarrow>
   0 \<le> hour dt \<Longrightarrow> hour dt \<le> 23 \<Longrightarrow> 0 \<le> minute dt \<Longrightarrow> minute dt \<le> 59 \<Longrightarrow>
   valid_datetime dt"
  by (simp add: valid_datetime_def mk_datetime_def)

lemma astimezone_cest_two_hours:
  assumes v: "valid_datetime dt" and a: "astimezone_cest dt = Inr dt'"
  shows "utc_minutes dt' = utc_minutes dt + 120 \<and> valid_datetime dt'"
proof -
  note d = valid_datetimeD [OF v]
  consider (same) "hour dt + 2 < 24"
    | (next_day) "\<not> hour dt + 2 < 24" "day dt < days_in_month (year dt) (month dt)"
    | (next_month) "\<not> hour dt + 2 < 24" "day dt = days_in_month (year dt) (month dt)" "month dt < 12"
    | (next_year) "\<not> hour dt + 2 < 24" "day dt = days_in_month (year dt) (month dt)" "month dt = 12"
    using d by linarith
  then show ?thesis
  proof cases
    case same
    with a have e: "dt' = dt\<lparr>hour := hour dt + 2\<rparr>" by (simp add: astimezone_cest_def)
    have "valid_datetime dt'" using d same unfolding e by (intro valid_datetimeI) simp_all
    then show ?thesis by (simp add: e utc_minutes_def toordinal_def)
  next
    case next_day
    with a have e: "dt' = dt\<lparr>day := day dt + 1, hour := hour dt + 2 - 24\<rparr>"
      by (simp add: astimezone_cest_def)
    have "valid_datetime dt'" using d next_day unfolding e by (intro valid_datetimeI) simp_all
    then show ?thesis by (simp add: e utc_minutes_def toordinal_def)
  next
    case next_month
    with a have e: "dt' = dt\<lparr>month := month dt + 1, day := 1, hour := hour dt + 2 - 24\<rparr>"
      by (simp add: astimezone_cest_def)
    have "valid_datetime dt'"
      using d next_month days_in_month_pos [of "year dt" "month dt + 1"] unfolding e
      by (intro valid_datetimeI) simp_all
    moreover have "toordinal dt' = toordinal dt + 1"
      using days_before_next_month [of "month dt" "year dt"] d next_month
      by (simp add: e toordinal_def)
    ultimately show ?thesis by (simp add: e utc_minutes_def)
  next
    case next_year
    with d have y: "year dt < 9999 \<or> year dt = 9999" by linarith
    with a next_year have lt: "year dt < 9999"
      by (auto simp: astimezone_cest_def)
    with a next_year have e: "dt' = dt\<lparr>year := year dt + 1, month := 1, day := 1, hour := hour dt + 2 - 24\<rparr>"
      by (simp add: astimezone_cest_def)
    have "valid_datetime dt'"
      using d next_year lt days_in_month_pos [of "year dt + 1" 1] unfolding e
      by (intro valid_datetimeI) simp_all
    moreover have "toordinal dt' = toordinal dt + 1"
    proof -
      have "sum_list (map (days_in_month (year dt)) [1..12])
              = sum_list (map (days_in_month (year dt)) [1..11]) + day dt"
        using days_before_next_month [of 12 "year dt"] next_year by simp
      then have o: "toordinal dt = 365 * (year dt - 1) + (year dt - 1) div 4 - (year dt - 1) div 100
                        + (year dt - 1) div 400 + 365 + (if is_leap (year dt) then 1 else 0)"
        using next_year days_in_year [of "year dt"] by (simp add: toordinal_def)
      have "toordinal dt' = 365 * year dt + year dt div 4 - year dt div 100 + year dt div 400 + 1"
        by (simp add: e toordinal_def)
      with o year_step [of "year dt"] show ?thesis by simp
    qed
    ultimately show ?thesis by (simp add: e utc_minutes_def)
  qed
qed

lemma print_rows_lines:
  "snd (print_rows lib ts) = None \<Longrightarrow>
     list_all2 (\<lambda>line t. csv_row lib t = Inr line) (fst (print_rows lib ts)) ts"
  by (induction ts) (auto split: sum.splits)

lemma csv_row_fields:
  assumes "csv_row lib t = Inr line"
  shows "\<exists>n b e bt ct et.
           n_samples t = Some n \<and> t_begin t = Some b \<and> t_end t = Some e
           \<and> astimezone_cest (time b) = Inr bt
           \<and> astimezone_cest (time (t_center t)) = Inr ct
           \<and> astimezone_cest (time e) = Inr et
           \<and> line = join '';'' [object t, str_of_float lib (mag_depth t), str_int n,
                                 strftime bt, str_int (elevation b),
                                 strftime ct, str_int (elevation (t_center t)),
                                 strftime et, str_int (elevation e)]"
  using assms unfolding csv_row_def
  by (auto split: option.splits sum.splits)

text \<open>
  C8, as the program has it. When \<^verbatim>\<open>print_transits_csv\<close> ends without an exception, it
  has printed the header line, whose three time columns are labelled
  \<^verbatim>\<open>begin time (cest)\<close>, \<^verbatim>\<open>center time (cest)\<close> and \<^verbatim>\<open>end time (cest)\<close>, and after it
  one line for each transit of the list, in the order of the list, and nothing else. The
  line of a transit joins with semicolons its object, depth, sample count and the three
  times and elevations, each time converted to the zone two hours east of UTC: 120
  minutes after the UTC time of the transit.
\<close>

theorem print_transits_csv_table:
  assumes "snd (print_transits_csv lib ts) = None"
  shows "\<exists>rows.
           fst (print_transits_csv lib ts) =
             ''object;mag_depth;n_samples;begin time (cest);begin elevation;center time (cest);center elevation;end time (cest);end elevation'' # rows
           \<and> list_all2 (\<lambda>line t. \<exists>n b e bt ct et.
                 n_samples t = Some n \<and> t_begin t = Some b \<and> t_end t = Some e
                 \<and> astimezone_cest (time b) = Inr bt
                 \<and> astimezone_cest (time (t_center t)) = Inr ct
                 \<and> astimezone_cest (time e) = Inr et
                 \<and> (valid_datetime (time b) \<longrightarrow> utc_minutes bt = utc_minutes (time b) + 120)
                 \<and> (valid_datetime (time (t_center t)) \<longrightarrow>
                       utc_minutes ct = utc_minutes (time (t_center t)) + 120)
                 \<and> (valid_datetime (time e) \<longrightarrow> utc_minutes et = utc_minutes (time e) + 120)
                 \<and> line = join '';'' [object t, str_of_float lib (mag_depth t), str_int n,
                                       strftime bt, str_int (elevation b),
                                       strftime ct, str_int (elevation (t_center t)),
                                       strftime et, str_int (elevation e)]) rows ts"
proof -
  from assms have n: "snd (print_rows lib ts) = None"
    by (simp add: print_transits_csv_def)
  have h: "fst (print_transits_csv lib ts) =
             ''object;mag_depth;n_samples;begin time (cest);begin elevation;center time (cest);center elevation;end time (cest);end elevation''
               # fst (print_rows lib ts)"
    by (simp add: print_transits_csv_def header_def)
  have "list_all2 (\<lambda>line t. \<exists>n b e bt ct et.
                 n_samples t = Some n \<and> t_begin t = Some b \<and> t_end t = Some e
                 \<and> astimezone_cest (time b) = Inr bt
                 \<and> astimezone_cest (time (t_center t)) = Inr ct
                 \<and> astimezone_cest (time e) = Inr et
                 \<and> (valid_datetime (time b) \<longrightarrow> utc_minutes bt = utc_minutes (time b) + 120)
                 \<and> (valid_datetime (time (t_center t)) \<longrightarrow>
                       utc_minutes ct = utc_minutes (time (t_center t)) + 120)
                 \<and> (valid_datetime (time e) \<longrightarrow> utc_minutes et = utc_minutes (time e) + 120)
                 \<and> line = join '';'' [object t, str_of_float lib (mag_depth t), str_int n,
                                       strftime bt, str_int (elevation b),
                                       strftime ct, str_int (elevation (t_center t)),
                                       strftime et, str_int (elevation e)])
          (fst (print_rows lib ts)) ts"
  proof (rule list_all2_mono [OF print_rows_lines [OF n]])
    fix line t
    assume "csv_row lib t = Inr line"
    from csv_row_fields [OF this] obtain n b e bt ct et where
      f: "n_samples t = Some n" "t_begin t = Some b" "t_end t = Some e"
         "astimezone_cest (time b) = Inr bt"
         "astimezone_cest (time (t_center t)) = Inr ct"
         "astimezone_cest (time e) = Inr et"
         "line = join '';'' [object t, str_of_float lib (mag_depth t), str_int n,
                                 strftime bt, str_int (elevation b),
                                 strftime ct, str_int (elevation (t_center t)),
                                 strftime et, str_int (elevation e)]"
      by blast
    have "valid_datetime (time b) \<longrightarrow> utc_minutes bt = utc_minutes (time b) + 120"
      "valid_datetime (time (t_center t)) \<longrightarrow> utc_minutes ct = utc_minutes (time (t_center t)) + 120"
      "valid_datetime (time e) \<longrightarrow> utc_minutes et = utc_minutes (time e) + 120"
      using astimezone_cest_two_hours f(4,5,6) by blast+
    with f show "\<exists>n b e bt ct et.
                 n_samples t = Some n \<and> t_begin t = Some b \<and> t_end t = Some e
                 \<and> astimezone_cest (time b) = Inr bt
                 \<and> astimezone_cest (time (t_center t)) = Inr ct
                 \<and> astimezone_cest (time e) = Inr et
                 \<and> (valid_datetime (time b) \<longrightarrow> utc_minutes bt = utc_minutes (time b) + 120)
                 \<and> (valid_datetime (time (t_center t)) \<longrightarrow>
                       utc_minutes ct = utc_minutes (time (t_center t)) + 120)
                 \<and> (valid_datetime (time e) \<longrightarrow> utc_minutes et = utc_minutes (time e) + 120)
                 \<and> line = join '';'' [object t, str_of_float lib (mag_depth t), str_int n,
                                       strftime bt, str_int (elevation b),
                                       strftime ct, str_int (elevation (t_center t)),
                                       strftime et, str_int (elevation e)]"
      by blast
  qed
  with h show ?thesis by blast
qed

theorem print_transits_csv_table_witness:
  "snd (print_transits_csv example_lib [counted_transit ''KELT-4A b'' (1 / 2) (Some 5)]) = None
   \<and> fst (print_transits_csv example_lib [counted_transit ''KELT-4A b'' (1 / 2) (Some 5)])
       = [''object;mag_depth;n_samples;begin time (cest);begin elevation;center time (cest);center elevation;end time (cest);end elevation'',
          ''KELT-4A b;0.5;5;2023-06-08 22:00;30;2023-06-08 23:00;40;2023-06-09 00:00;50'']
   \<and> (\<exists>rows. fst (print_transits_csv example_lib [counted_transit ''KELT-4A b'' (1 / 2) (Some 5)]) =
             ''object;mag_depth;n_samples;begin time (cest);begin elevation;center time (cest);center elevation;end time (cest);end elevation'' # rows
           \<and> length rows = 1)
   \<and> valid_datetime (time (utc_moment 22 0 50))
   \<and> utc_minutes \<lparr>year = 2023, month = 6, day = 9, hour = 0, minute = 0\<rparr>
       = utc_minutes (time (utc_moment 22 0 50)) + 120"
proof -
  have s: "snd (print_transits_csv example_lib [counted_transit ''KELT-4A b'' (1 / 2) (Some 5)]) = None"
    by (simp add: print_transits_csv_def csv_row_kelt)
  have f: "fst (print_transits_csv example_lib [counted_transit ''KELT-4A b'' (1 / 2) (Some 5)])
       = [''object;mag_depth;n_samples;begin time (cest);begin elevation;center time (cest);center elevation;end time (cest);end elevation'',
          ''KELT-4A b;0.5;5;2023-06-08 22:00;30;2023-06-08 23:00;40;2023-06-09 00:00;50'']"
    by (simp add: print_transits_csv_def csv_row_kelt header_line)
  from print_transits_csv_table [OF s] obtain rows where
    "fst (print_transits_csv example_lib [counted_transit ''KELT-4A b'' (1 / 2) (Some 5)]) =
             ''object;mag_depth;n_samples;begin time (cest);begin elevation;center time (cest);center elevation;end time (cest);end elevation'' # rows"
    and "list_all2 (\<lambda>line t. \<exists>n b e bt ct et.
                 n_samples t = Some n \<and> t_begin t = Some b \<and> t_end t = Some e
                 \<and> astimezone_cest (time b) = Inr bt
                 \<and> astimezone_cest (time (t_center t)) = Inr ct
                 \<and> astimezone_cest (time e) = Inr et
                 \<and> (valid_datetime (time b) \<longrightarrow> utc_minutes bt = utc_minutes (time b) + 120)
                 \<and> (valid_datetime (time (t_center t)) \<longrightarrow>
                       utc_minutes ct = utc_minutes (time (t_center t)) + 120)
                 \<and> (valid_datetime (time e) \<longrightarrow> utc_minutes et = utc_minutes (time e) + 120)
                 \<and> line = join '';'' [object t, str_of_float example_lib (mag_depth t), str_int n,
                                       strftime bt, str_int (elevation b),
                                       strftime ct, str_int (elevation (t_center t)),
                                       strftime et, str_int (elevation e)]) rows
            [counted_transit ''KELT-4A b'' (1 / 2) (Some 5)]"
    by blast
  then have "\<exists>rows. fst (print_transits_csv example_lib [counted_transit ''KELT-4A b'' (1 / 2) (Some 5)]) =
             ''object;mag_depth;n_samples;begin time (cest);begin elevation;center time (cest);center elevation;end time (cest);end elevation'' # rows
           \<and> length rows = 1"
    by (auto dest: list_all2_lengthD)
  moreover have v: "valid_datetime (time (utc_moment 22 0 50))"
    by (simp add: valid_datetime_def mk_datetime_def utc_moment_def days_in_month_def)
  moreover have "utc_minutes \<lparr>year = 2023, month = 6, day = 9, hour = 0, minute = 0\<rparr>
       = utc_minutes (time (utc_moment 22 0 50)) + 120"
  proof -
    have a: "astimezone_cest (time (utc_moment 22 0 50))
               = Inr \<lparr>year = 2023, month = 6, day = 9, hour = 0, minute = 0\<rparr>"
      by (simp add: astimezone_cest_def utc_moment_def days_in_month_def)
    have e: "t_end (counted_transit ''KELT-4A b'' (1 / 2) (Some 5)) = Some (utc_moment 22 0 50)"
      by (simp add: counted_transit_def)
    from print_transits_csv_table [OF s] v a e show ?thesis
      by (auto simp: list_all2_Cons2)
  qed
  ultimately show ?thesis using s f by blast
qed

text \<open>
  C8 as stated fails on the header: the line the program prints is not the line of the
  claim, whose time columns carry no \<^verbatim>\<open>(cest)\<close>.
\<close>

theorem print_transits_csv_header_counterexample:
  "fst (print_transits_csv example_lib []) =
     [''object;mag_depth;n_samples;begin time (cest);begin elevation;center time (cest);center elevation;end time (cest);end elevation'']
   \<and> fst (print_transits_csv example_lib []) \<noteq>
     [''object;mag_depth;n_samples;begin time;begin elevation;center time;center elevation;end time;end elevation'']"
  by (simp add: print_transits_csv_def header_def)

end
